theory Spec2Isabelle
  imports Main
begin

section \<open>Errors\<close>

text \<open>
  Go errors are values. The sources build them in four ways, each a constructor here:
  a plain message (\<^verbatim>\<open>errors.New\<close>, or \<^verbatim>\<open>fmt.Errorf\<close> with \<^verbatim>\<open>%v\<close> only), a wrapper
  \<^verbatim>\<open>fmt.Errorf("<prefix>%w", err)\<close> that keeps its cause, an AWS SDK error
  (\<^verbatim>\<open>awserr.Error\<close>: a code, a message and the text of the error that caused it, if any),
  and an API status error of the declarative object store with a reason.
  \<^verbatim>\<open>WaitingForSubResources\<close> is the sentinel of the operator's errors package.
\<close>

record awserr =
  Code :: string
  Message :: string
  OrigErr :: "string option"

datatype status_reason = NotFound | AlreadyExists | OtherReason string

datatype error =
    ErrorString string
  | Wrapf string error
  | AwsError awserr
  | StatusError status_reason string
  | WaitingForSubResources

text \<open>\<^verbatim>\<open>errors.Is(err, target)\<close>: the chain of causes of \<open>err\<close> holds \<open>target\<close>.\<close>

fun errors_Is :: "error \<Rightarrow> error \<Rightarrow> bool" where
  "errors_Is (Wrapf p e) target = (Wrapf p e = target \<or> errors_Is e target)"
| "errors_Is e target = (e = target)"

text \<open>
  The text of an AWS SDK error, \<^verbatim>\<open>awserr.SprintError\<close>: code, colon, message, and the
  cause on a line of its own. A batch error's cause names the keys and the bucket of the
  operations that failed and the errors they failed with.
\<close>

definition awserr_Error :: "awserr \<Rightarrow> string" where
  "awserr_Error a =
     Code a @ '': '' @ Message a @
     (case OrigErr a of None \<Rightarrow> [] | Some t \<Rightarrow> [CHR 0x0A] @ ''caused by: '' @ t)"

text \<open>
  \<^verbatim>\<open>errors.As(err, &aerr)\<close> for an \<^verbatim>\<open>awserr.Error\<close> target: the first AWS SDK error in the
  chain of causes.
\<close>

fun errors_As_awserr :: "error \<Rightarrow> awserr option" where
  "errors_As_awserr (AwsError a) = Some a"
| "errors_As_awserr (Wrapf p e) = errors_As_awserr e"
| "errors_As_awserr e = None"

text \<open>
  \<^verbatim>\<open>IsNotFound\<close> (of the API machinery's errors package, and of the operator's errors
  package that passes it on): the error is a status error whose reason is NotFound.
\<close>

fun IsNotFound :: "error \<Rightarrow> bool" where
  "IsNotFound (StatusError NotFound m) = True"
| "IsNotFound e = False"

text \<open>\<^verbatim>\<open>strings.Contains(s, sub)\<close>: \<open>sub\<close> occurs in \<open>s\<close> as a contiguous run.\<close>

fun strings_Contains :: "string \<Rightarrow> string \<Rightarrow> bool" where
  "strings_Contains [] sub = (sub = [])"
| "strings_Contains (c # cs) sub =
     (take (length sub) (c # cs) = sub \<or> strings_Contains cs sub)"

section \<open>The dependency composer (controlplane.go)\<close>

text \<open>
  A sub-controller is the interface \<^verbatim>\<open>controlplane.Controller\<close>: \<^verbatim>\<open>Reconcile\<close> and
  \<^verbatim>\<open>Finalize\<close>, each returning an error or nil. The context, the stores behind the clients
  and the control plane object the stages receive by pointer are the world \<open>'w\<close> that
  every call reads and may change.
\<close>

record 'w Controller =
  Reconcile :: "'w \<Rightarrow> error option \<times> 'w"
  Finalize :: "'w \<Rightarrow> error option \<times> 'w"

record 'w controlPlane =
  etcdController :: "'w Controller"
  masterController :: "'w Controller"
  addonsController :: "'w Controller"

text \<open>
  The values \<^verbatim>\<open>results.Created\<close>, \<^verbatim>\<open>results.Failed\<close> and \<^verbatim>\<open>results.Terminated\<close> are
  package-level \<^verbatim>\<open>*reconcile.Result\<close> variables of the results package; a returned
  \<^verbatim>\<open>nil\<close> pointer is \<open>None\<close>.
\<close>

datatype results = Created | Failed | Terminated

text \<open>The \<^verbatim>\<open>for ... range\<close> loop of \<^verbatim>\<open>controlPlane.Reconcile\<close> over the stage list.\<close>

fun Reconcile_range :: "'w Controller list \<Rightarrow> 'w \<Rightarrow> (results option \<times> error option) \<times> 'w" where
  "Reconcile_range [] w = ((Some Created, None), w)"
| "Reconcile_range (resource # rest) w =
     (case Reconcile resource w of
        (Some err, w') \<Rightarrow> ((None, Some (Wrapf ''control plane reconciling, '' err)), w')
      | (None, w') \<Rightarrow> Reconcile_range rest w')"

definition controlPlane_Reconcile ::
  "'w controlPlane \<Rightarrow> 'w \<Rightarrow> (results option \<times> error option) \<times> 'w" where
  "controlPlane_Reconcile c w =
     Reconcile_range [etcdController c, masterController c, addonsController c] w"

definition controlPlane_Finalize ::
  "'w controlPlane \<Rightarrow> 'w \<Rightarrow> (results option \<times> error option) \<times> 'w" where
  "controlPlane_Finalize c w =
     (case Finalize (masterController c) w of
        (Some err, w') \<Rightarrow> ((Some Failed, Some err), w')
      | (None, w') \<Rightarrow> ((Some Terminated, None), w'))"

text \<open>
  To say which stages a call of the composer invoked, a stage is observed from outside:
  \<open>traced n ctl\<close> behaves as \<open>ctl\<close> on the world and appends to a log, kept beside the
  world, the call it received.
\<close>

datatype call = ReconcileCall string | FinalizeCall string

definition traced :: "string \<Rightarrow> 'w Controller \<Rightarrow> (call list \<times> 'w) Controller" where
  "traced n ctl =
     \<lparr>Reconcile = (\<lambda>(log, w). case Reconcile ctl w of (e, w') \<Rightarrow> (e, (log @ [ReconcileCall n], w'))),
      Finalize = (\<lambda>(log, w). case Finalize ctl w of (e, w') \<Rightarrow> (e, (log @ [FinalizeCall n], w')))\<rparr>"

definition traced_controlPlane :: "'w controlPlane \<Rightarrow> (call list \<times> 'w) controlPlane" where
  "traced_controlPlane c =
     \<lparr>etcdController = traced ''etcd'' (etcdController c),
      masterController = traced ''master'' (masterController c),
      addonsController = traced ''addons'' (addonsController c)\<rparr>"

text \<open>A stage that leaves the world alone and returns the given errors.\<close>

definition stub :: "error option \<Rightarrow> error option \<Rightarrow> unit Controller" where
  "stub re fe = \<lparr>Reconcile = (\<lambda>w. (re, w)), Finalize = (\<lambda>w. (fe, w))\<rparr>"


section \<open>Bulk artifact sync: the DirectoryIterator (package cluster)\<close>

subsection \<open>Files of the operating system\<close>

text \<open>
  \<^verbatim>\<open>os.Open\<close> either fails with an error (and a nil \<^verbatim>\<open>*os.File\<close>) or returns a new
  handle. Which paths cannot be opened is the parameter \<open>fs\<close>. The state of the
  operating system is the next free descriptor, the descriptors that are open, and a
  trace of what happened, kept to state what was opened, uploaded and closed, and when.
\<close>

type_synonym path = string

record File =
  fd :: nat
  fname :: path

datatype event =
    Opened path nat
  | OpenFailed path
  | UploadAttempt string string "nat option" bool
  | Closed nat

record os_state =
  next_fd :: nat
  open_files :: "nat list"
  trace :: "event list"

definition os_Open ::
  "(path \<Rightarrow> error option) \<Rightarrow> path \<Rightarrow> os_state \<Rightarrow> (File option \<times> error option) \<times> os_state" where
  "os_Open fs p s =
     (case fs p of
        Some e \<Rightarrow> ((None, Some e), s\<lparr>trace := trace s @ [OpenFailed p]\<rparr>)
      | None \<Rightarrow>
          ((Some \<lparr>fd = next_fd s, fname = p\<rparr>, None),
           s\<lparr>next_fd := Suc (next_fd s),
             open_files := next_fd s # open_files s,
             trace := trace s @ [Opened p (next_fd s)]\<rparr>))"

text \<open>
  \<^verbatim>\<open>(*os.File).Close\<close>: on a nil file it returns \<^verbatim>\<open>os.ErrInvalid\<close>, on a file that is
  not open (closed before) \<^verbatim>\<open>os.ErrClosed\<close>; otherwise the descriptor is released.
\<close>

definition File_Close :: "File option \<Rightarrow> os_state \<Rightarrow> error option \<times> os_state" where
  "File_Close f s =
     (case f of
        None \<Rightarrow> (Some (ErrorString ''invalid argument''), s)
      | Some h \<Rightarrow>
          if fd h \<in> set (open_files s)
          then (None, s\<lparr>open_files := removeAll (fd h) (open_files s),
                         trace := trace s @ [Closed (fd h)]\<rparr>)
          else (Some (ErrorString ''file already closed''), s))"

subsection \<open>The iterator\<close>

text \<open>
  The struct \<^verbatim>\<open>DirectoryIterator\<close>; its anonymous struct \<^verbatim>\<open>next\<close> is the two fields
  \<open>next_path\<close> and \<open>next_f\<close>.
\<close>

record DirectoryIterator =
  filePaths :: "path list"
  bucket :: string
  next_path :: path
  next_f :: "File option"
  err :: "error option"

text \<open>
  \<^verbatim>\<open>filepath.Walk\<close> belongs to Go's library: it visits the entries of the tree in lexical
  order and calls the function it is given with the path, whether the entry is a
  directory, and the error it met reading the entry; it stops when that function returns
  an error. The visits it would make are the parameter; the function called at each visit
  is the closure of \<^verbatim>\<open>NewDirectoryIterator\<close>, which appends to \<^verbatim>\<open>paths\<close>.
  \<^verbatim>\<open>NewDirectoryIterator\<close> drops the error \<^verbatim>\<open>filepath.Walk\<close> returns.
\<close>

datatype walk_entry = WalkEntry path bool "error option"

definition walkFn :: "path list \<Rightarrow> path \<Rightarrow> bool \<Rightarrow> error option \<Rightarrow> error option \<times> path list" where
  "walkFn paths p isDir e =
     (case e of
        Some x \<Rightarrow> (Some x, paths)
      | None \<Rightarrow> (None, if \<not> isDir then paths @ [p] else paths))"

fun filepath_Walk :: "walk_entry list \<Rightarrow> path list \<Rightarrow> error option \<times> path list" where
  "filepath_Walk [] paths = (None, paths)"
| "filepath_Walk (WalkEntry p isDir e # rest) paths =
     (case walkFn paths p isDir e of
        (Some x, paths') \<Rightarrow> (Some x, paths')
      | (None, paths') \<Rightarrow> filepath_Walk rest paths')"

definition NewDirectoryIterator :: "string \<Rightarrow> walk_entry list \<Rightarrow> DirectoryIterator" where
  "NewDirectoryIterator b visits =
     \<lparr>filePaths = snd (filepath_Walk visits []), bucket = b,
      next_path = [], next_f = None, err = None\<rparr>"

text \<open>\<^verbatim>\<open>Next\<close> returns its boolean, the iterator and the operating system's state.\<close>

definition Next ::
  "(path \<Rightarrow> error option) \<Rightarrow> DirectoryIterator \<Rightarrow> os_state \<Rightarrow> bool \<times> DirectoryIterator \<times> os_state" where
  "Next fs d s =
     (if length (filePaths d) = 0 then (False, d\<lparr>next_f := None\<rparr>, s)
      else
        (case os_Open fs (hd (filePaths d)) s of
           ((f, e), s') \<Rightarrow>
             (let d' = d\<lparr>next_f := f, err := e, next_path := hd (filePaths d),
                        filePaths := tl (filePaths d)\<rparr>
              in (err d' = None, d', s'))))"

text \<open>
  The upload unit. In the source \<^verbatim>\<open>Bucket\<close> and \<^verbatim>\<open>Key\<close> are pointers to the iterator's
  fields, read by the uploader before the next call of \<^verbatim>\<open>Next\<close>; \<^verbatim>\<open>After\<close> is the method
  value \<^verbatim>\<open>d.next.f.Close\<close>, bound to the file that is current when \<^verbatim>\<open>UploadObject\<close> runs.
\<close>

record UploadInput =
  Bucket :: string
  Key :: string
  Body :: "File option"

record BatchUploadObject =
  Object :: UploadInput
  After :: "(os_state \<Rightarrow> error option \<times> os_state) option"

definition UploadObject :: "DirectoryIterator \<Rightarrow> BatchUploadObject" where
  "UploadObject d =
     \<lparr>Object = \<lparr>Bucket = bucket d, Key = next_path d, Body = next_f d\<rparr>,
      After = Some (File_Close (next_f d))\<rparr>"

subsection \<open>The batch uploader that drives the iterator\<close>

text \<open>
  \<^verbatim>\<open>s3manager.Uploader.UploadWithIterator\<close> is the object store client's, outside the
  repository. Its loop is modelled after its contract as the specification gives it
  (section 4.2): while \<^verbatim>\<open>Next\<close> returns true it takes the upload unit, uploads it,
  records a failure, and then runs the unit's \<^verbatim>\<open>After\<close> whatever the upload returned,
  recording its failure too. The outcome of each upload is the parameter \<open>up\<close>; the
  upload reads the body and leaves the handle open.
\<close>

lemma Next_True_shorter:
  "Next fs d s = (True, d', s') \<Longrightarrow> length (filePaths d') < length (filePaths d)"
  by (auto simp: Next_def Let_def split: if_splits prod.splits)

function UploadWithIterator_loop ::
  "(path \<Rightarrow> error option) \<Rightarrow> (UploadInput \<Rightarrow> error option) \<Rightarrow> DirectoryIterator \<Rightarrow> os_state
     \<Rightarrow> error list \<Rightarrow> error list \<times> DirectoryIterator \<times> os_state" where
  "UploadWithIterator_loop fs up d s errs =
     (case Next fs d s of
        (b, d', s') \<Rightarrow>
          if \<not> b then (errs, d', s')
          else
            (let object = UploadObject d';
                 r = up (Object object);
                 s1 = s'\<lparr>trace := trace s' @
                        [UploadAttempt (Bucket (Object object)) (Key (Object object))
                           (map_option fd (Body (Object object))) (r = None)]\<rparr>;
                 errs1 = (case r of Some x \<Rightarrow> errs @ [x] | None \<Rightarrow> errs)
             in case After object of
                  None \<Rightarrow> UploadWithIterator_loop fs up d' s1 errs1
                | Some after \<Rightarrow>
                    (case after s1 of
                       (Some x, s2) \<Rightarrow> UploadWithIterator_loop fs up d' s2 (errs1 @ [x])
                     | (None, s2) \<Rightarrow> UploadWithIterator_loop fs up d' s2 errs1)))"
  by pat_completeness auto
termination
  by (relation "measure (\<lambda>(fs, up, d, s, errs). length (filePaths d))")
     (auto dest: Next_True_shorter [OF sym])

declare UploadWithIterator_loop.simps [simp del]

definition UploadWithIterator ::
  "(path \<Rightarrow> error option) \<Rightarrow> (UploadInput \<Rightarrow> error option) \<Rightarrow> DirectoryIterator \<Rightarrow> os_state
     \<Rightarrow> error option \<times> DirectoryIterator \<times> os_state" where
  "UploadWithIterator fs up d s =
     (case UploadWithIterator_loop fs up d s [] of
        (errs, d', s') \<Rightarrow>
          (if length errs > 0
           then Some (AwsError \<lparr>Code = ''BatchedUploadIncomplete'',
                                Message = ''some objects have failed to upload.'',
                                OrigErr = None\<rparr>)
           else None, d', s'))"

text \<open>
  What a trace says: the paths on which an open was attempted, in order; and the trace
  of a whole batch upload over the paths \<open>ps\<close> whose first new descriptor is \<open>n\<close>: each
  path that opens is opened, uploaded and closed, in this order, and the first path that
  does not open ends the trace.
\<close>

fun open_attempts :: "event list \<Rightarrow> path list" where
  "open_attempts [] = []"
| "open_attempts (Opened p n # es) = p # open_attempts es"
| "open_attempts (OpenFailed p # es) = p # open_attempts es"
| "open_attempts (_ # es) = open_attempts es"

fun upload_trace ::
  "(path \<Rightarrow> error option) \<Rightarrow> (UploadInput \<Rightarrow> error option) \<Rightarrow> string \<Rightarrow> path list \<Rightarrow> nat \<Rightarrow> event list" where
  "upload_trace fs up b [] n = []"
| "upload_trace fs up b (p # ps) n =
     (case fs p of
        Some e \<Rightarrow> [OpenFailed p]
      | None \<Rightarrow>
          [Opened p n,
           UploadAttempt b p (Some n)
             (up \<lparr>Bucket = b, Key = p, Body = Some \<lparr>fd = n, fname = p\<rparr>\<rparr> = None),
           Closed n] @ upload_trace fs up b ps (Suc n))"

text \<open>The calls \<^verbatim>\<open>Next\<close> made \<open>k\<close> times in a row, whatever each returned.\<close>

fun Next_times ::
  "nat \<Rightarrow> (path \<Rightarrow> error option) \<Rightarrow> DirectoryIterator \<Rightarrow> os_state
     \<Rightarrow> bool list \<times> DirectoryIterator \<times> os_state" where
  "Next_times 0 fs d s = ([], d, s)"
| "Next_times (Suc k) fs d s =
     (case Next fs d s of
        (b, d', s') \<Rightarrow> (case Next_times k fs d' s' of (bs, d'', s'') \<Rightarrow> (b # bs, d'', s'')))"

text \<open>
  Descriptors are handed out fresh: every open descriptor is below the next free one.
  The state before any file is opened satisfies this, and every operation keeps it.
\<close>

definition fds_fresh :: "os_state \<Rightarrow> bool" where
  "fds_fresh s = list_all (\<lambda>i. i < next_fd s) (open_files s)"

section \<open>The cluster endpoint (master/endpoint.go)\<close>

text \<open>
  The service object as far as \<^verbatim>\<open>GetClusterEndpoint\<close> reads it: the list
  \<^verbatim>\<open>Status.LoadBalancer.Ingress\<close>. \<^verbatim>\<open>client.Get\<close> fills the object and returns an error
  or nil: here it returns the error or the object, for the key it is asked.
\<close>

record LoadBalancerIngress =
  IP :: string
  Hostname :: string

record Service =
  Ingress :: "LoadBalancerIngress list"

record NamespacedName =
  nn_Namespace :: string
  nn_Name :: string

definition ServiceNameFor :: "string \<Rightarrow> string" where
  "ServiceNameFor clusterName = clusterName @ ''-cp''"

definition GetClusterEndpoint ::
  "(NamespacedName \<Rightarrow> error + Service) \<Rightarrow> NamespacedName \<Rightarrow> string \<times> error option" where
  "GetClusterEndpoint client_Get nn =
     (case client_Get \<lparr>nn_Namespace = nn_Namespace nn, nn_Name = ServiceNameFor (nn_Name nn)\<rparr> of
        Inl e \<Rightarrow>
          if IsNotFound e
          then ([], Some (Wrapf ''getting control plane endpoint, '' WaitingForSubResources))
          else ([], Some (Wrapf ''getting cluster endpoint, '' e))
      | Inr svc \<Rightarrow>
          if length (Ingress svc) > 0 then (Hostname (Ingress svc ! 0), None)
          else ([], Some (Wrapf ''endpoint name, '' WaitingForSubResources)))"

section \<open>The cluster configuration in the content store (package cluster)\<close>

subsection \<open>The substrate object and the kubeadm configuration\<close>

text \<open>
  The substrate as the package reads and writes it. \<^verbatim>\<open>SubstrateStatus\<close> is declared in a
  file that is not among the sources; the code uses its fields \<^verbatim>\<open>Cluster.Address\<close> and
  \<^verbatim>\<open>Cluster.KubeConfig\<close>, both string pointers, and its conditions.
\<close>

record VPCSpec =
  vpc_CIDR :: string

record SubnetSpec =
  Zone :: string
  subnet_CIDR :: string
  Public :: bool

record SubstrateSpec =
  VPC :: "VPCSpec option"
  Subnets :: "SubnetSpec list"
  InstanceType :: "string option"

record ClusterStatus =
  Address :: "string option"
  KubeConfig :: "string option"

record SubstrateStatus =
  Cluster :: ClusterStatus
  Conditions :: "(string \<times> string) list"

record Substrate =
  Name :: string
  Namespace :: string
  Spec :: SubstrateSpec
  Status :: SubstrateStatus

record Result =
  Requeue :: bool
  RequeueAfter :: int

text \<open>
  A call returns a result and an error or nil, or it panics (\<^verbatim>\<open>runtime.Must\<close>).
\<close>

datatype outcome = Returned Result "error option" | Panicked error

text \<open>
  Of kubeadm's \<^verbatim>\<open>InitConfiguration\<close>, the fields the package sets. The generators that
  consume the configuration are outside the repository and are parameters below.
\<close>

record LocalEtcd =
  etcd_ImageRepository :: string
  etcd_ImageTag :: string
  ServerCertSANs :: "string list"
  PeerCertSANs :: "string list"
  DataDir :: string
  etcd_ExtraArgs :: "(string \<times> string) list"

record HostPathMount =
  hp_Name :: string
  HostPath :: string
  MountPath :: string
  ReadOnly :: bool
  PathType :: string

record InitConfiguration =
  KubernetesVersion :: string
  ImageRepository :: string
  Etcd_Local :: "LocalEtcd option"
  AdvertiseAddress :: string
  BindPort :: int
  ControlPlaneEndpoint :: string
  APIServer_CertSANs :: "string list"
  APIServer_ExtraArgs :: "(string \<times> string) list option"
  APIServer_ExtraVolumes :: "HostPathMount list"
  Scheduler_ExtraArgs :: "(string \<times> string) list option"
  ControllerManager_ExtraArgs :: "(string \<times> string) list option"
  NodeRegistration_Name :: string
  NodeRegistration_KubeletExtraArgs :: "(string \<times> string) list option"
  CertificatesDir :: string

subsection \<open>What the package calls outside the repository\<close>

text \<open>
  The clients (S3, its batch deleter and uploader, STS), the operating system's files,
  kubeadm's generators and the operator's authenticator component are reached through
  these operations. Each reads and changes a world \<open>'w\<close> and returns an error or nil;
  the S3 operations return AWS SDK errors, which is what lets the code assert
  \<^verbatim>\<open>err.(awserr.Error)\<close>. \<^verbatim>\<open>discovery.Name\<close>, \<^verbatim>\<open>path.Join\<close> and the constant
  \<^verbatim>\<open>kubeconfigFile\<close> are declared outside the sources: they are parameters too, pure
  functions of their arguments. \<^verbatim>\<open>S3Uploader_UploadWithIterator b dir\<close> stands for the
  uploader run on \<^verbatim>\<open>NewDirectoryIterator(b, dir)\<close>, modelled above on its own.
\<close>

record 'w cluster_env =
  discovery_Name :: "Substrate \<Rightarrow> string list \<Rightarrow> string option"
  path_Join :: "string list \<Rightarrow> string"
  kubeconfigFile :: string
  S3_CreateBucket :: "string option \<Rightarrow> 'w \<Rightarrow> awserr option \<times> 'w"
  BatchDelete_Delete :: "string option \<Rightarrow> 'w \<Rightarrow> awserr option \<times> 'w"
  S3_DeleteBucket :: "string option \<Rightarrow> 'w \<Rightarrow> awserr option \<times> 'w"
  S3Uploader_UploadWithIterator :: "string \<Rightarrow> string \<Rightarrow> 'w \<Rightarrow> error option \<times> 'w"
  STS_GetCallerIdentity :: "'w \<Rightarrow> (error + string option) \<times> 'w"
  os_RemoveAll :: "string \<Rightarrow> 'w \<Rightarrow> error option \<times> 'w"
  os_Stat :: "string \<Rightarrow> 'w \<Rightarrow> error option"
  os_IsNotExist :: "error \<Rightarrow> bool"
  os_MkdirAll :: "string \<Rightarrow> nat \<Rightarrow> 'w \<Rightarrow> error option \<times> 'w"
  ioutil_WriteFile :: "string \<Rightarrow> string \<Rightarrow> nat \<Rightarrow> 'w \<Rightarrow> error option \<times> 'w"
  config_DefaultedStaticInitConfiguration :: "error + InitConfiguration"
  certs_CertTree :: "error option"
  certTree_CreateTree :: "InitConfiguration \<Rightarrow> 'w \<Rightarrow> error option \<times> 'w"
  certs_CreateServiceAccountKeyAndPublicKeyFiles :: "string \<Rightarrow> 'w \<Rightarrow> error option \<times> 'w"
  kubeconfig_CreateKubeConfigFile ::
    "string \<Rightarrow> string \<Rightarrow> InitConfiguration \<Rightarrow> 'w \<Rightarrow> error option \<times> 'w"
  etcd_CreateLocalEtcdStaticPodManifestFile ::
    "string \<Rightarrow> string \<Rightarrow> InitConfiguration \<Rightarrow> 'w \<Rightarrow> error option \<times> 'w"
  controlplane_CreateStaticPodFiles ::
    "string \<Rightarrow> InitConfiguration \<Rightarrow> string \<Rightarrow> 'w \<Rightarrow> error option \<times> 'w"
  iamauthenticator_Config ::
    "string \<Rightarrow> string \<Rightarrow> string \<Rightarrow> string \<Rightarrow> 'w \<Rightarrow> (error + string) \<times> 'w"
  authenticator_pod_MarshalToYaml :: "error + string"

text \<open>\<^verbatim>\<open>aws.StringValue\<close>: the string a pointer points to, or the empty string for nil.\<close>

definition aws_StringValue :: "string option \<Rightarrow> string" where
  "aws_StringValue v = (case v of None \<Rightarrow> [] | Some x \<Rightarrow> x)"

subsection \<open>Constants\<close>

definition ClusterCertsBasePath :: string where "ClusterCertsBasePath = ''/tmp/''"
definition kubeconfigPath :: string where "kubeconfigPath = ''/etc/kubernetes''"
definition certPKIPath :: string where "certPKIPath = ''/etc/kubernetes/pki''"
definition clusterManifestPath :: string where "clusterManifestPath = ''/etc/kubernetes/manifests''"
definition kubeletSystemdPath :: string where "kubeletSystemdPath = ''/etc/systemd/system''"
definition authenticatorConfigDir :: string where "authenticatorConfigDir = ''/etc/aws-iam-authenticator''"
definition kubernetesVersionTag :: string where "kubernetesVersionTag = ''v1.21.2-eks-1-21-4''"
definition imageRepository :: string where "imageRepository = ''public.ecr.aws/eks-distro/kubernetes''"
definition etcdVersionTag :: string where "etcdVersionTag = ''v3.4.16-eks-1-21-7''"
definition etcdImageRepository :: string where "etcdImageRepository = ''public.ecr.aws/eks-distro/etcd-io''"
definition tenantControlPlaneNodeRole :: string where
  "tenantControlPlaneNodeRole = ''tenant-controlplane-node-role''"

text \<open>The error codes of the S3 client and the names of kubeadm's constants package.\<close>

definition ErrCodeBucketAlreadyOwnedByYou :: string where
  "ErrCodeBucketAlreadyOwnedByYou = ''BucketAlreadyOwnedByYou''"
definition ErrCodeNoSuchBucket :: string where "ErrCodeNoSuchBucket = ''NoSuchBucket''"

definition AdminKubeConfigFileName :: string where "AdminKubeConfigFileName = ''admin.conf''"
definition KubeletKubeConfigFileName :: string where "KubeletKubeConfigFileName = ''kubelet.conf''"
definition ControllerManagerKubeConfigFileName :: string where
  "ControllerManagerKubeConfigFileName = ''controller-manager.conf''"
definition SchedulerKubeConfigFileName :: string where
  "SchedulerKubeConfigFileName = ''scheduler.conf''"
definition KubeAPIServer :: string where "KubeAPIServer = ''kube-apiserver''"
definition KubeControllerManager :: string where
  "KubeControllerManager = ''kube-controller-manager''"
definition KubeScheduler :: string where "KubeScheduler = ''kube-scheduler''"

subsection \<open>The functions of the package\<close>

text \<open>
  Each function takes the substrate the source passes by pointer, and returns what the
  source returns and the world. Only \<^verbatim>\<open>Create\<close> assigns to a field of the substrate, so
  only \<^verbatim>\<open>Create\<close> returns it. The kubeadm configuration is assigned to by the helpers
  and is returned by them. Log lines are left out.
\<close>

definition ensureBucket :: "'w cluster_env \<Rightarrow> Substrate \<Rightarrow> 'w \<Rightarrow> error option \<times> 'w" where
  "ensureBucket env substrate w =
     (case S3_CreateBucket env (discovery_Name env substrate []) w of
        (Some a, w') \<Rightarrow>
          if Code a \<noteq> ErrCodeBucketAlreadyOwnedByYou
          then (Some (Wrapf ''creating S3 bucket, '' (AwsError a)), w')
          else (None, w')
      | (None, w') \<Rightarrow> (None, w'))"

definition DefaultClusterConfig :: "'w cluster_env \<Rightarrow> Substrate \<Rightarrow> error + InitConfiguration" where
  "DefaultClusterConfig env substrate =
     (case config_DefaultedStaticInitConfiguration env of
        Inl e \<Rightarrow> Inl e
      | Inr defaultStaticConfig \<Rightarrow>
          (let masterElasticIP = aws_StringValue (Address (Cluster (Status substrate)))
           in Inr (defaultStaticConfig
             \<lparr>KubernetesVersion := kubernetesVersionTag,
              ImageRepository := imageRepository,
              Etcd_Local := Some
                \<lparr>etcd_ImageRepository = etcdImageRepository, etcd_ImageTag = etcdVersionTag,
                 ServerCertSANs = [''localhost'', ''127.0.0.1''],
                 PeerCertSANs = [''localhost'', ''127.0.0.1''],
                 DataDir = ''/var/lib/etcd'',
                 etcd_ExtraArgs =
                   [(''initial-cluster'', Name substrate @ ''=https://127.0.0.1:2380''),
                    (''initial-cluster-state'', ''new''),
                    (''name'', Name substrate),
                    (''listen-peer-urls'', ''https://127.0.0.1:2380''),
                    (''listen-client-urls'', ''https://127.0.0.1:2379''),
                    (''advertise-client-urls'', ''https://127.0.0.1:2379''),
                    (''initial-advertise-peer-urls'', ''https://127.0.0.1:2380'')]\<rparr>,
              AdvertiseAddress := masterElasticIP,
              BindPort := 443,
              ControlPlaneEndpoint := masterElasticIP @ '':443'',
              APIServer_CertSANs :=
                [masterElasticIP, Name substrate, ''kubernetes'', ''kubernetes.default'',
                 ''kubernetes.default.svc'', ''kubernetes.default.svc.cluster.local'',
                 ''10.96.0.1''],
              APIServer_ExtraArgs := Some
                [(''advertise-address'', masterElasticIP),
                 (''secure-port'', ''443''),
                 (''authentication-token-webhook-config-file'',
                  ''/var/aws-iam-authenticator/kubeconfig/kubeconfig.yaml'')],
              APIServer_ExtraVolumes :=
                [\<lparr>hp_Name = ''authenticator-config'',
                  HostPath = ''/var/aws-iam-authenticator/kubeconfig/kubeconfig.yaml'',
                  MountPath = ''/var/aws-iam-authenticator/kubeconfig/kubeconfig.yaml'',
                  ReadOnly = True, PathType = ''FileOrCreate''\<rparr>],
              Scheduler_ExtraArgs :=
                (if Scheduler_ExtraArgs defaultStaticConfig = None then Some []
                 else Scheduler_ExtraArgs defaultStaticConfig),
              ControllerManager_ExtraArgs :=
                (if ControllerManager_ExtraArgs defaultStaticConfig = None then Some []
                 else ControllerManager_ExtraArgs defaultStaticConfig),
              NodeRegistration_Name := Name substrate,
              NodeRegistration_KubeletExtraArgs := Some
                [(''cgroup-driver'', ''systemd''), (''network-plugin'', ''cni''),
                 (''pod-infra-container-image'',
                  imageRepository @ ''/pause:'' @ kubernetesVersionTag)]\<rparr>)))"

definition generateCerts ::
  "'w cluster_env \<Rightarrow> InitConfiguration \<Rightarrow> Substrate \<Rightarrow> 'w \<Rightarrow> error option \<times> InitConfiguration \<times> 'w" where
  "generateCerts env cfg substrate w =
     (let cfg1 = cfg\<lparr>CertificatesDir := path_Join env
                  [ClusterCertsBasePath, aws_StringValue (discovery_Name env substrate []),
                   certPKIPath]\<rparr>
      in case certs_CertTree env of
           Some e \<Rightarrow> (Some e, cfg1, w)
         | None \<Rightarrow>
             (case certTree_CreateTree env cfg1 w of
                (Some e, w1) \<Rightarrow> (Some (Wrapf ''error creating cert tree, '' e), cfg1, w1)
              | (None, w1) \<Rightarrow>
                  (case certs_CreateServiceAccountKeyAndPublicKeyFiles env (CertificatesDir cfg1) w1 of
                     (r, w2) \<Rightarrow> (r, cfg1, w2))))"

fun kubeConfigs_range ::
  "'w cluster_env \<Rightarrow> string \<Rightarrow> InitConfiguration \<Rightarrow> string list \<Rightarrow> 'w \<Rightarrow> error option \<times> 'w" where
  "kubeConfigs_range env kubeConfigDir cfg [] w = (None, w)"
| "kubeConfigs_range env kubeConfigDir cfg (kubeConfigFileName # rest) w =
     (case kubeconfig_CreateKubeConfigFile env kubeConfigFileName kubeConfigDir cfg w of
        (Some e, w1) \<Rightarrow> (Some (Wrapf (''creating '' @ kubeConfigFileName @ '', '') e), w1)
      | (None, w1) \<Rightarrow> kubeConfigs_range env kubeConfigDir cfg rest w1)"

definition kubeConfigs ::
  "'w cluster_env \<Rightarrow> InitConfiguration \<Rightarrow> Substrate \<Rightarrow> 'w \<Rightarrow> error option \<times> 'w" where
  "kubeConfigs env cfg substrate w =
     kubeConfigs_range env
       (path_Join env [ClusterCertsBasePath, aws_StringValue (discovery_Name env substrate []),
                       kubeconfigPath])
       cfg
       [AdminKubeConfigFileName, KubeletKubeConfigFileName,
        ControllerManagerKubeConfigFileName, SchedulerKubeConfigFileName] w"

fun CreateStaticPodFiles_range ::
  "'w cluster_env \<Rightarrow> string \<Rightarrow> InitConfiguration \<Rightarrow> string list \<Rightarrow> 'w \<Rightarrow> error option \<times> 'w" where
  "CreateStaticPodFiles_range env manifestDir cfg [] w = (None, w)"
| "CreateStaticPodFiles_range env manifestDir cfg (componentName # rest) w =
     (case controlplane_CreateStaticPodFiles env manifestDir cfg componentName w of
        (Some e, w1) \<Rightarrow>
          (Some (Wrapf (''creating static pod file for '' @ componentName @ '', '') e), w1)
      | (None, w1) \<Rightarrow> CreateStaticPodFiles_range env manifestDir cfg rest w1)"

definition generateStaticPodManifests ::
  "'w cluster_env \<Rightarrow> InitConfiguration \<Rightarrow> Substrate \<Rightarrow> 'w \<Rightarrow> error option \<times> InitConfiguration \<times> 'w" where
  "generateStaticPodManifests env cfg substrate w =
     (let manifestDir = path_Join env
            [ClusterCertsBasePath, aws_StringValue (discovery_Name env substrate []),
             clusterManifestPath];
          cfg1 = cfg\<lparr>CertificatesDir := certPKIPath\<rparr>
      in case etcd_CreateLocalEtcdStaticPodManifestFile env manifestDir
                (NodeRegistration_Name cfg1) cfg1 w of
           (Some e, w1) \<Rightarrow>
             (Some (Wrapf ''error creating local etcd static pod manifest file '' e), cfg1, w1)
         | (None, w1) \<Rightarrow>
             (case CreateStaticPodFiles_range env manifestDir cfg1
                     [KubeAPIServer, KubeControllerManager, KubeScheduler] w1 of
                (r, w2) \<Rightarrow> (r, cfg1, w2)))"

definition kubelet_service :: "string \<Rightarrow> string" where
  "kubelet_service hostname =
     ''[Unit]'' @ [CHR 0x0A] @
     ''After=docker.service iptables-restore.service'' @ [CHR 0x0A] @
     ''Requires=docker.service'' @ [CHR 0x0A] @ [CHR 0x0A] @
     ''[Service]'' @ [CHR 0x0A] @
     ''ExecStart=/usr/bin/kubelet --hostname-override='' @ hostname @
     '' --address=127.0.0.1 --pod-manifest-path=/etc/kubernetes/manifests'' @
     '' --kubeconfig=/etc/kubernetes/kubelet.conf  --cgroup-driver=systemd '' @
     '' --container-runtime=docker --network-plugin=cni'' @
     '' --pod-infra-container-image=public.ecr.aws/eks-distro/kubernetes/pause:v1.18.9-eks-1-18-1'' @
     '' --node-labels=kit.aws/substrate=control-plane'' @ [CHR 0x0A] @
     ''Restart=always''"

definition kubeletSystemService ::
  "'w cluster_env \<Rightarrow> InitConfiguration \<Rightarrow> Substrate \<Rightarrow> 'w \<Rightarrow> error option \<times> 'w" where
  "kubeletSystemService env cfg substrate w =
     (let localDir = path_Join env
            [ClusterCertsBasePath, aws_StringValue (discovery_Name env substrate []),
             kubeletSystemdPath];
          write = (\<lambda>w1.
            case ioutil_WriteFile env (path_Join env [localDir, ''kubelet.service''])
                   (kubelet_service (Name substrate)) 420 w1 of
              (Some e, w2) \<Rightarrow> (Some (Wrapf ''writing kubelet configuration, '' e), w2)
            | (None, w2) \<Rightarrow> (None, w2))
      in case os_Stat env localDir w of
           Some e \<Rightarrow>
             if \<not> os_IsNotExist env e then (Some e, w)
             else
               (case os_MkdirAll env localDir 511 w of
                  (Some e1, w1) \<Rightarrow> (Some e1, w1)
                | (None, w1) \<Rightarrow> write w1)
         | None \<Rightarrow> write w)"

definition ensureAuthenticatorConfig ::
  "'w cluster_env \<Rightarrow> Substrate \<Rightarrow> 'w \<Rightarrow> error option \<times> 'w" where
  "ensureAuthenticatorConfig env substrate w =
     (case STS_GetCallerIdentity env w of
        (Inl e, w1) \<Rightarrow> (Some (Wrapf ''getting caller identity, '' e), w1)
      | (Inr account, w1) \<Rightarrow>
          (case iamauthenticator_Config env (Name substrate) (Namespace substrate)
                  (aws_StringValue (discovery_Name env substrate [tenantControlPlaneNodeRole]))
                  (aws_StringValue account) w1 of
             (Inl e, w2) \<Rightarrow> (Some (Wrapf ''creating authenticator config, '' e), w2)
           | (Inr config_yaml, w2) \<Rightarrow>
               (let configDir = path_Join env
                      [ClusterCertsBasePath, aws_StringValue (discovery_Name env substrate []),
                       authenticatorConfigDir]
                in case os_MkdirAll env configDir 448 w2 of
                     (Some e, w3) \<Rightarrow> (Some (Wrapf ''failed to create directory, '' e), w3)
                   | (None, w3) \<Rightarrow>
                       (case ioutil_WriteFile env (path_Join env [configDir, ''config.yaml''])
                               config_yaml 420 w3 of
                          (Some e, w4) \<Rightarrow> (Some (Wrapf ''writing authenticator config, '' e), w4)
                        | (None, w4) \<Rightarrow> (None, w4)))))"

definition staticPodSpecForAuthenticator ::
  "'w cluster_env \<Rightarrow> Substrate \<Rightarrow> 'w \<Rightarrow> error option \<times> 'w" where
  "staticPodSpecForAuthenticator env substrate w =
     (case authenticator_pod_MarshalToYaml env of
        Inl e \<Rightarrow> (Some (Wrapf ''failed to marshal config map manifest, '' e), w)
      | Inr serialized \<Rightarrow>
          (case ioutil_WriteFile env
                  (path_Join env
                     [ClusterCertsBasePath, aws_StringValue (discovery_Name env substrate []),
                      clusterManifestPath, ''aws-iam-authenticator.yaml''])
                  serialized 420 w of
             (Some e, w1) \<Rightarrow> (Some (Wrapf ''writing authenticator pod yaml, '' e), w1)
           | (None, w1) \<Rightarrow> (None, w1)))"

definition Result_zero :: Result where
  "Result_zero = \<lparr>Requeue = False, RequeueAfter = 0\<rparr>"

definition Config_Create :: "'w cluster_env \<Rightarrow> Substrate \<Rightarrow> 'w \<Rightarrow> outcome \<times> Substrate \<times> 'w" where
  "Config_Create env substrate w =
     (if Address (Cluster (Status substrate)) = None
      then (Returned \<lparr>Requeue = True, RequeueAfter = 0\<rparr> None, substrate, w)
      else
     (case ensureBucket env substrate w of
        (Some e, w1) \<Rightarrow>
          (Returned Result_zero (Some (Wrapf ''ensuring S3 bucket, '' e)), substrate, w1)
      | (None, w1) \<Rightarrow>
     (case DefaultClusterConfig env substrate of
        Inl e \<Rightarrow> (Panicked e, substrate, w1)
      | Inr cfg \<Rightarrow>
     (case generateCerts env cfg substrate w1 of
        (Some e, cfg2, w2) \<Rightarrow>
          (Returned Result_zero (Some (Wrapf ''generating certs, '' e)), substrate, w2)
      | (None, cfg2, w2) \<Rightarrow>
     (case kubeConfigs env cfg2 substrate w2 of
        (Some e, w3) \<Rightarrow>
          (Returned Result_zero (Some (Wrapf ''generating kube config, '' e)), substrate, w3)
      | (None, w3) \<Rightarrow>
     (case generateStaticPodManifests env cfg2 substrate w3 of
        (Some e, cfg4, w4) \<Rightarrow>
          (Returned Result_zero (Some (Wrapf ''generating manifests, '' e)), substrate, w4)
      | (None, cfg4, w4) \<Rightarrow>
     (case kubeletSystemService env cfg4 substrate w4 of
        (Some e, w5) \<Rightarrow>
          (Returned Result_zero (Some (Wrapf ''generating kubelet service config, '' e)),
           substrate, w5)
      | (None, w5) \<Rightarrow>
     (case ensureAuthenticatorConfig env substrate w5 of
        (Some e, w6) \<Rightarrow>
          (Returned Result_zero (Some (Wrapf ''generating authenticator config, '' e)),
           substrate, w6)
      | (None, w6) \<Rightarrow>
     (case staticPodSpecForAuthenticator env substrate w6 of
        (Some e, w7) \<Rightarrow>
          (Returned Result_zero (Some (Wrapf ''generating authenticator config, '' e)),
           substrate, w7)
      | (None, w7) \<Rightarrow>
     (case S3Uploader_UploadWithIterator env
             (aws_StringValue (discovery_Name env substrate []))
             (path_Join env [ClusterCertsBasePath,
                             aws_StringValue (discovery_Name env substrate [])]) w7 of
        (Some e, w8) \<Rightarrow>
          (Returned Result_zero (Some (Wrapf ''uploading to S3 '' e)), substrate, w8)
      | (None, w8) \<Rightarrow>
          (Returned Result_zero None,
           substrate\<lparr>Status := (Status substrate)
             \<lparr>Cluster := (Cluster (Status substrate))
                \<lparr>KubeConfig := Some (path_Join env
                    [ClusterCertsBasePath, aws_StringValue (discovery_Name env substrate []),
                     kubeconfigFile env])\<rparr>\<rparr>\<rparr>,
           w8)))))))))))"

definition Config_Delete :: "'w cluster_env \<Rightarrow> Substrate \<Rightarrow> 'w \<Rightarrow> (Result \<times> error option) \<times> 'w" where
  "Config_Delete env substrate w =
     (case BatchDelete_Delete env (discovery_Name env substrate []) w of
        (r1, w1) \<Rightarrow>
          (case (case r1 of
                   None \<Rightarrow> None
                 | Some a \<Rightarrow>
                     if \<not> strings_Contains (awserr_Error a) ''NoSuchBucket''
                     then Some (ErrorString (''deleting objects from bucket '' @ awserr_Error a))
                     else None) of
             Some e \<Rightarrow> ((Result_zero, Some e), w1)
           | None \<Rightarrow>
               (case S3_DeleteBucket env (discovery_Name env substrate []) w1 of
                  (r2, w2) \<Rightarrow>
                    (case (case r2 of
                             None \<Rightarrow> None
                           | Some a \<Rightarrow>
                               if Code a \<noteq> ErrCodeNoSuchBucket
                               then Some (Wrapf ''deleting S3, '' (AwsError a))
                               else None) of
                       Some e \<Rightarrow> ((Result_zero, Some e), w2)
                     | None \<Rightarrow>
                         (case os_RemoveAll env
                                 (path_Join env [ClusterCertsBasePath,
                                    aws_StringValue (discovery_Name env substrate [])]) w2 of
                            (r3, w3) \<Rightarrow> ((Result_zero, r3), w3))))))"

definition ErrNoSuchBucket :: "error option \<Rightarrow> bool" where
  "ErrNoSuchBucket r =
     (case r of
        None \<Rightarrow> False
      | Some e \<Rightarrow>
          (case errors_As_awserr e of
             Some aerr \<Rightarrow> Code aerr = ErrCodeNoSuchBucket
           | None \<Rightarrow> False))"

text \<open>
  An environment for examples: its world is the list of the external calls made so far.
  The three S3 operations and the upload return the outcomes given; every other
  operation succeeds. The bucket is named after the substrate.
\<close>

definition recording_env ::
  "awserr option \<Rightarrow> awserr option \<Rightarrow> awserr option \<Rightarrow> error option \<Rightarrow> string list cluster_env" where
  "recording_env createBucket batchDelete deleteBucket upload =
     \<lparr>discovery_Name = (\<lambda>substrate suffixes. Some (concat (Name substrate # suffixes))),
      path_Join = (\<lambda>elems. concat elems),
      kubeconfigFile = ''/etc/kubernetes/admin.conf'',
      S3_CreateBucket = (\<lambda>b w. (createBucket, w @ [''CreateBucket '' @ aws_StringValue b])),
      BatchDelete_Delete = (\<lambda>b w. (batchDelete, w @ [''BatchDelete.Delete '' @ aws_StringValue b])),
      S3_DeleteBucket = (\<lambda>b w. (deleteBucket, w @ [''DeleteBucket '' @ aws_StringValue b])),
      S3Uploader_UploadWithIterator = (\<lambda>b dir w. (upload, w @ [''UploadWithIterator '' @ b])),
      STS_GetCallerIdentity = (\<lambda>w. (Inr (Some ''123456789012''), w @ [''GetCallerIdentity''])),
      os_RemoveAll = (\<lambda>dir w. (None, w @ [''RemoveAll '' @ dir])),
      os_Stat = (\<lambda>dir w. None),
      os_IsNotExist = (\<lambda>e. False),
      os_MkdirAll = (\<lambda>dir mode w. (None, w @ [''MkdirAll '' @ dir])),
      ioutil_WriteFile = (\<lambda>file content mode w. (None, w @ [''WriteFile '' @ file])),
      config_DefaultedStaticInitConfiguration = Inr
        \<lparr>KubernetesVersion = [], ImageRepository = [], Etcd_Local = None,
         AdvertiseAddress = [], BindPort = 6443, ControlPlaneEndpoint = [],
         APIServer_CertSANs = [], APIServer_ExtraArgs = None, APIServer_ExtraVolumes = [],
         Scheduler_ExtraArgs = None, ControllerManager_ExtraArgs = None,
         NodeRegistration_Name = [], NodeRegistration_KubeletExtraArgs = None,
         CertificatesDir = ''/etc/kubernetes/pki''\<rparr>,
      certs_CertTree = None,
      certTree_CreateTree = (\<lambda>cfg w. (None, w @ [''CreateTree''])),
      certs_CreateServiceAccountKeyAndPublicKeyFiles =
        (\<lambda>dir w. (None, w @ [''CreateServiceAccountKeyAndPublicKeyFiles''])),
      kubeconfig_CreateKubeConfigFile =
        (\<lambda>file dir cfg w. (None, w @ [''CreateKubeConfigFile '' @ file])),
      etcd_CreateLocalEtcdStaticPodManifestFile =
        (\<lambda>dir node cfg w. (None, w @ [''CreateLocalEtcdStaticPodManifestFile''])),
      controlplane_CreateStaticPodFiles =
        (\<lambda>dir cfg component w. (None, w @ [''CreateStaticPodFiles '' @ component])),
      iamauthenticator_Config =
        (\<lambda>n ns role account w. (Inr ''config'', w @ [''iamauthenticator.Config''])),
      authenticator_pod_MarshalToYaml = Inr ''pod''\<rparr>"

definition example_substrate :: "string option \<Rightarrow> Substrate" where
  "example_substrate address =
     \<lparr>Name = ''kit'', Namespace = ''default'',
      Spec = \<lparr>VPC = None, Subnets = [], InstanceType = None\<rparr>,
      Status = \<lparr>Cluster = \<lparr>Address = address, KubeConfig = None\<rparr>, Conditions = []\<rparr>\<rparr>"

section \<open>Security group objects (pkg/resource/securitygroup.go)\<close>

text \<open>
  The declarative object store behind \<^verbatim>\<open>KubeClient\<close>, as far as security group objects
  go: the keys (namespace and name) of the objects it holds, and the keys \<^verbatim>\<open>Create\<close> was
  called with. \<^verbatim>\<open>Get\<close> returns nil for a key it holds and a NotFound status error
  otherwise; \<^verbatim>\<open>Create\<close> adds the key, or returns an AlreadyExists status error for a
  key it holds. Either can fail with another error first (a fault, given per key).
\<close>

record kube_store =
  objects :: "(string \<times> string) list"
  create_calls :: "(string \<times> string) list"

definition KubeClient_Get ::
  "((string \<times> string) \<Rightarrow> error option) \<Rightarrow> kube_store \<Rightarrow> string \<times> string \<Rightarrow> error option" where
  "KubeClient_Get get_fault k key =
     (case get_fault key of
        Some e \<Rightarrow> Some e
      | None \<Rightarrow> if key \<in> set (objects k) then None else Some (StatusError NotFound ''not found''))"

definition KubeClient_Create ::
  "((string \<times> string) \<Rightarrow> error option) \<Rightarrow> string \<times> string \<Rightarrow> kube_store \<Rightarrow> error option \<times> kube_store" where
  "KubeClient_Create create_fault key k =
     (let k1 = k\<lparr>create_calls := create_calls k @ [key]\<rparr>
      in case create_fault key of
           Some e \<Rightarrow> (Some e, k1)
         | None \<Rightarrow>
             if key \<in> set (objects k) then (Some (StatusError AlreadyExists ''already exists''), k1)
             else (None, k1\<lparr>objects := objects k @ [key]\<rparr>))"

text \<open>
  The control plane object, and what the package takes from files that are not among
  the sources: the list \<^verbatim>\<open>ComponentsSupported\<close>, the name \<^verbatim>\<open>ObjectName\<close> gives the object
  of a component, and the namespace and name \<^verbatim>\<open>ObjectMeta\<close> gives the object to create.
\<close>

record ControlPlane =
  cp_Name :: string
  cp_Namespace :: string

record sg_env =
  ComponentsSupported :: "string list"
  ObjectName :: "ControlPlane \<Rightarrow> string \<Rightarrow> string"
  ObjectMeta :: "ControlPlane \<Rightarrow> string \<Rightarrow> string \<times> string"
  get_fault :: "(string \<times> string) \<Rightarrow> error option"
  create_fault :: "(string \<times> string) \<Rightarrow> error option"

definition SecurityGroup_exists :: "sg_env \<Rightarrow> string \<Rightarrow> string \<Rightarrow> kube_store \<Rightarrow> error option" where
  "SecurityGroup_exists env ns objName k = KubeClient_Get (get_fault env) k (ns, objName)"

definition SecurityGroup_create ::
  "sg_env \<Rightarrow> string \<Rightarrow> ControlPlane \<Rightarrow> kube_store \<Rightarrow> error option \<times> kube_store" where
  "SecurityGroup_create env component controlPlane k =
     (case KubeClient_Create (create_fault env) (ObjectMeta env controlPlane component) k of
        (Some e, k') \<Rightarrow> (Some (Wrapf ''creating security group kube object, '' e), k')
      | (None, k') \<Rightarrow> (None, k'))"

fun SecurityGroup_Create_range ::
  "sg_env \<Rightarrow> ControlPlane \<Rightarrow> string list \<Rightarrow> kube_store \<Rightarrow> error option \<times> kube_store" where
  "SecurityGroup_Create_range env controlPlane [] k = (None, k)"
| "SecurityGroup_Create_range env controlPlane (component # rest) k =
     (case SecurityGroup_exists env (cp_Namespace controlPlane)
             (ObjectName env controlPlane component) k of
        Some e \<Rightarrow>
          if IsNotFound e
          then (case SecurityGroup_create env component controlPlane k of
                  (Some e', k') \<Rightarrow> (Some (Wrapf ''creating security group kube object, '' e'), k')
                | (None, k') \<Rightarrow> SecurityGroup_Create_range env controlPlane rest k')
          else (Some (Wrapf ''getting security group object, '' e), k)
      | None \<Rightarrow> SecurityGroup_Create_range env controlPlane rest k)"

definition SecurityGroup_Create ::
  "sg_env \<Rightarrow> ControlPlane \<Rightarrow> kube_store \<Rightarrow> error option \<times> kube_store" where
  "SecurityGroup_Create env controlPlane k =
     SecurityGroup_Create_range env controlPlane (ComponentsSupported env) k"

section \<open>Properties of the dependency composer\<close>

lemma traced_Reconcile:
  "Reconcile (traced n ctl) (log, w) =
     (fst (Reconcile ctl w), (log @ [ReconcileCall n], snd (Reconcile ctl w)))"
  by (simp add: traced_def split: prod.splits)

lemma traced_Finalize:
  "Finalize (traced n ctl) (log, w) =
     (fst (Finalize ctl w), (log @ [FinalizeCall n], snd (Finalize ctl w)))"
  by (simp add: traced_def split: prod.splits)

text \<open>
  C1, as the claim states it, fails: with three stages that all succeed, Finalize of the
  composer calls the master stage's Finalize alone, so the calls are not addons, master,
  etcd; and when the addons stage's Finalize is forced to fail, the composer still
  returns \<^verbatim>\<open>results.Terminated\<close> and no error, since that stage is not finalized.
\<close>

theorem controlPlane_Finalize_reverse_order_counterexample:
  "fst (snd (controlPlane_Finalize
      (traced_controlPlane
         \<lparr>etcdController = stub None None, masterController = stub None None,
          addonsController = stub None None\<rparr>) ([], ())))
     \<noteq> [FinalizeCall ''addons'', FinalizeCall ''master'', FinalizeCall ''etcd'']
   \<and> controlPlane_Finalize
      (traced_controlPlane
         \<lparr>etcdController = stub None None, masterController = stub None None,
          addonsController = stub None (Some (ErrorString ''addons teardown failed''))\<rparr>) ([], ())
     = ((Some Terminated, None), ([FinalizeCall ''master''], ()))"
  by (simp add: controlPlane_Finalize_def traced_controlPlane_def traced_Finalize stub_def)

text \<open>
  C1, amended: Finalize of the composer invokes the Finalize of the master stage and of
  no other stage (etcd and addons are not finalized by it); the world it leaves is the
  one the master stage left; the master stage's error is surfaced to the caller as it is,
  with \<^verbatim>\<open>results.Failed\<close>, and without an error the result is \<^verbatim>\<open>results.Terminated\<close>.
\<close>

theorem controlPlane_Finalize_master_only:
  "fst (snd (controlPlane_Finalize (traced_controlPlane c) (log, w))) = log @ [FinalizeCall ''master'']
   \<and> snd (snd (controlPlane_Finalize (traced_controlPlane c) (log, w)))
       = snd (Finalize (masterController c) w)
   \<and> snd (fst (controlPlane_Finalize (traced_controlPlane c) (log, w)))
       = fst (Finalize (masterController c) w)
   \<and> fst (fst (controlPlane_Finalize (traced_controlPlane c) (log, w)))
       = Some (if fst (Finalize (masterController c) w) = None then Terminated else Failed)"
  by (simp add: controlPlane_Finalize_def traced_controlPlane_def traced_Finalize
        split: prod.splits option.splits)

text \<open>
  C2: Reconcile of the composer invokes the stages' Reconcile in the order etcd, master,
  addons. The first stage that returns an error ends the call: the result pointer is nil,
  the error is that stage's error wrapped with the prefix "control plane reconciling, ",
  the calls made are those up to and including the failing stage, and the world is the
  one the failing stage left, so no later stage ran. When all three succeed the result is
  \<^verbatim>\<open>results.Created\<close> with no error.
\<close>

theorem controlPlane_Reconcile_forward_first_error:
  "(Reconcile (etcdController c) w = (Some e, w1) \<longrightarrow>
      controlPlane_Reconcile (traced_controlPlane c) (log, w)
        = ((None, Some (Wrapf ''control plane reconciling, '' e)),
           (log @ [ReconcileCall ''etcd''], w1)))
   \<and> (Reconcile (etcdController c) w = (None, w1) \<and>
      Reconcile (masterController c) w1 = (Some e, w2) \<longrightarrow>
      controlPlane_Reconcile (traced_controlPlane c) (log, w)
        = ((None, Some (Wrapf ''control plane reconciling, '' e)),
           (log @ [ReconcileCall ''etcd'', ReconcileCall ''master''], w2)))
   \<and> (Reconcile (etcdController c) w = (None, w1) \<and>
      Reconcile (masterController c) w1 = (None, w2) \<and>
      Reconcile (addonsController c) w2 = (Some e, w3) \<longrightarrow>
      controlPlane_Reconcile (traced_controlPlane c) (log, w)
        = ((None, Some (Wrapf ''control plane reconciling, '' e)),
           (log @ [ReconcileCall ''etcd'', ReconcileCall ''master'', ReconcileCall ''addons''], w3)))
   \<and> (Reconcile (etcdController c) w = (None, w1) \<and>
      Reconcile (masterController c) w1 = (None, w2) \<and>
      Reconcile (addonsController c) w2 = (None, w3) \<longrightarrow>
      controlPlane_Reconcile (traced_controlPlane c) (log, w)
        = ((Some Created, None),
           (log @ [ReconcileCall ''etcd'', ReconcileCall ''master'', ReconcileCall ''addons''], w3)))"
  by (simp add: controlPlane_Reconcile_def traced_controlPlane_def traced_Reconcile)

theorem controlPlane_Reconcile_forward_first_error_witness:
  "Reconcile (etcdController
       \<lparr>etcdController = stub None None,
        masterController = stub (Some (ErrorString ''boom'')) None,
        addonsController = stub None None\<rparr>) () = (None, ())
   \<and> Reconcile (masterController
       \<lparr>etcdController = stub None None,
        masterController = stub (Some (ErrorString ''boom'')) None,
        addonsController = stub None None\<rparr>) () = (Some (ErrorString ''boom''), ())
   \<and> controlPlane_Reconcile (traced_controlPlane
       \<lparr>etcdController = stub None None,
        masterController = stub (Some (ErrorString ''boom'')) None,
        addonsController = stub None None\<rparr>) ([], ())
     = ((None, Some (Wrapf ''control plane reconciling, '' (ErrorString ''boom''))),
        ([ReconcileCall ''etcd'', ReconcileCall ''master''], ()))"
proof -
  let ?c = "\<lparr>etcdController = stub None None,
        masterController = stub (Some (ErrorString ''boom'')) None,
        addonsController = stub None None\<rparr>"
  have h1: "Reconcile (etcdController ?c) () = (None, ())"
    by (simp add: stub_def)
  have h2: "Reconcile (masterController ?c) () = (Some (ErrorString ''boom''), ())"
    by (simp add: stub_def)
  have "controlPlane_Reconcile (traced_controlPlane ?c) ([], ())
     = ((None, Some (Wrapf ''control plane reconciling, '' (ErrorString ''boom''))),
        ([] @ [ReconcileCall ''etcd'', ReconcileCall ''master''], ()))"
    using controlPlane_Reconcile_forward_first_error
      [where c = ?c and w = "()" and ?w1.0 = "()" and ?w2.0 = "()"
         and e = "ErrorString ''boom''" and log = "[]", THEN conjunct2, THEN conjunct1]
      h1 h2 by blast
  with h1 h2 show ?thesis by simp
qed

section \<open>Properties of the directory iterator\<close>


lemma Next_Nil:
  "filePaths d = [] \<Longrightarrow> Next fs d s = (False, d\<lparr>next_f := None\<rparr>, s)"
  by (simp add: Next_def)

lemma Next_Cons_opens:
  "filePaths d = p # ps \<Longrightarrow> fs p = None \<Longrightarrow>
   Next fs d s =
     (True,
      d\<lparr>next_f := Some \<lparr>fd = next_fd s, fname = p\<rparr>, err := None, next_path := p, filePaths := ps\<rparr>,
      s\<lparr>next_fd := Suc (next_fd s), open_files := next_fd s # open_files s,
        trace := trace s @ [Opened p (next_fd s)]\<rparr>)"
  by (simp add: Next_def os_Open_def)

lemma Next_Cons_fails:
  "filePaths d = p # ps \<Longrightarrow> fs p = Some e \<Longrightarrow>
   Next fs d s =
     (False,
      d\<lparr>next_f := None, err := Some e, next_path := p, filePaths := ps\<rparr>,
      s\<lparr>trace := trace s @ [OpenFailed p]\<rparr>)"
  by (simp add: Next_def os_Open_def)

lemma loop_trace:
  "fds_fresh s \<Longrightarrow> filePaths d = ps \<Longrightarrow>
   trace (snd (snd (UploadWithIterator_loop fs up d s errs)))
     = trace s @ upload_trace fs up (bucket d) ps (next_fd s)
   \<and> open_files (snd (snd (UploadWithIterator_loop fs up d s errs))) = open_files s"
proof (induction ps arbitrary: d s errs)
  case Nil
  then show ?case
    by (subst UploadWithIterator_loop.simps, subst UploadWithIterator_loop.simps) (simp add: Next_Nil)
next
  case (Cons p ps)
  show ?case
  proof (cases "fs p")
    case (Some e)
    with Cons.prems show ?thesis
      by (subst UploadWithIterator_loop.simps, subst UploadWithIterator_loop.simps)
         (simp add: Next_Cons_fails)
  next
    case None
    let ?d' = "d\<lparr>next_f := Some \<lparr>fd = next_fd s, fname = p\<rparr>, err := None, next_path := p, filePaths := ps\<rparr>"
    let ?s2 = "s\<lparr>next_fd := Suc (next_fd s), open_files := open_files s,
        trace := trace s @ [Opened p (next_fd s),
           UploadAttempt (bucket d) p (Some (next_fd s))
             (up \<lparr>Bucket = bucket d, Key = p, Body = Some \<lparr>fd = next_fd s, fname = p\<rparr>\<rparr> = None),
           Closed (next_fd s)]\<rparr>"
    have notin: "next_fd s \<notin> set (open_files s)"
      using Cons.prems(1) by (auto simp: fds_fresh_def list_all_iff)
    have fresh': "fds_fresh ?s2"
      using Cons.prems(1) by (auto simp: fds_fresh_def list_all_iff)
    have step: "UploadWithIterator_loop fs up d s errs =
        UploadWithIterator_loop fs up ?d' ?s2
          (case up \<lparr>Bucket = bucket d, Key = p, Body = Some \<lparr>fd = next_fd s, fname = p\<rparr>\<rparr> of
             Some x \<Rightarrow> errs @ [x] | None \<Rightarrow> errs)"
      using Cons.prems(2) None notin
      by (subst UploadWithIterator_loop.simps)
         (simp add: Next_Cons_opens UploadObject_def File_Close_def Let_def)
    have "filePaths ?d' = ps" by simp
    from Cons.IH [OF fresh' this] show ?thesis
      using None by (simp add: step)
  qed
qed


lemma open_attempts_append:
  "open_attempts (xs @ ys) = open_attempts xs @ open_attempts ys"
  by (induction xs rule: open_attempts.induct) simp_all

lemma loop_open_attempts:
  "filePaths d = ps \<Longrightarrow>
   open_attempts (trace (snd (snd (UploadWithIterator_loop fs up d s errs))))
     = open_attempts (trace s)
         @ takeWhile (\<lambda>p. fs p = None) ps @ take 1 (dropWhile (\<lambda>p. fs p = None) ps)"
proof (induction ps arbitrary: d s errs)
  case Nil
  then show ?case
    by (subst UploadWithIterator_loop.simps) (simp add: Next_Nil)
next
  case (Cons p ps)
  show ?case
  proof (cases "fs p")
    case (Some e)
    with Cons.prems show ?thesis
      by (subst UploadWithIterator_loop.simps)
         (simp add: Next_Cons_fails open_attempts_append)
  next
    case None
    let ?d' = "d\<lparr>next_f := Some \<lparr>fd = next_fd s, fname = p\<rparr>, err := None, next_path := p, filePaths := ps\<rparr>"
    have d': "filePaths ?d' = ps" by simp
    show ?thesis
      using Cons.prems None
      by (subst UploadWithIterator_loop.simps)
         (simp add: Next_Cons_opens UploadObject_def File_Close_def Let_def
            Cons.IH [OF d'] open_attempts_append)
  qed
qed

lemma first_failure_prefix:
  "k < length ps \<Longrightarrow> fs (ps ! k) \<noteq> None \<Longrightarrow> \<forall>j<k. fs (ps ! j) = None \<Longrightarrow>
   takeWhile (\<lambda>p. fs p = None) ps @ take 1 (dropWhile (\<lambda>p. fs p = None) ps) = take (Suc k) ps"
proof (induction ps arbitrary: k)
  case Nil
  then show ?case by simp
next
  case (Cons p ps)
  show ?case
  proof (cases k)
    case 0
    with Cons.prems show ?thesis by auto
  next
    case (Suc k')
    with Cons.prems have "fs p = None" by auto
    moreover have "takeWhile (\<lambda>p. fs p = None) ps @ take 1 (dropWhile (\<lambda>p. fs p = None) ps)
        = take (Suc k') ps"
      using Cons.prems Suc by (intro Cons.IH) auto
    ultimately show ?thesis using Suc by simp
  qed
qed

lemma no_failure_all:
  "\<forall>p \<in> set ps. fs p = None \<Longrightarrow>
   takeWhile (\<lambda>p. fs p = None) ps @ take 1 (dropWhile (\<lambda>p. fs p = None) ps) = ps"
  by (induction ps) auto

lemma loop_err:
  "filePaths d = ps \<Longrightarrow> k < length ps \<Longrightarrow> fs (ps ! k) \<noteq> None \<Longrightarrow> \<forall>j<k. fs (ps ! j) = None \<Longrightarrow>
   err (fst (snd (UploadWithIterator_loop fs up d s errs))) = fs (ps ! k)
   \<and> filePaths (fst (snd (UploadWithIterator_loop fs up d s errs))) = drop (Suc k) ps"
proof (induction ps arbitrary: d s errs k)
  case Nil
  then show ?case by simp
next
  case (Cons p ps)
  show ?case
  proof (cases k)
    case 0
    with Cons.prems obtain e where "fs p = Some e" by auto
    with Cons.prems 0 show ?thesis
      by (subst UploadWithIterator_loop.simps, subst UploadWithIterator_loop.simps)
         (simp add: Next_Cons_fails)
  next
    case (Suc k')
    with Cons.prems have None: "fs p = None" by auto
    let ?d' = "d\<lparr>next_f := Some \<lparr>fd = next_fd s, fname = p\<rparr>, err := None, next_path := p, filePaths := ps\<rparr>"
    have d': "filePaths ?d' = ps" by simp
    have k': "k' < length ps" "fs (ps ! k') \<noteq> None" "\<forall>j<k'. fs (ps ! j) = None"
      using Cons.prems Suc by auto
    show ?thesis
      using Cons.prems(1) None Suc
      by (subst UploadWithIterator_loop.simps, subst UploadWithIterator_loop.simps)
         (simp add: Next_Cons_opens UploadObject_def File_Close_def Let_def
            Cons.IH [OF d' k'])
  qed
qed


lemma upload_trace_fd_ge:
  "Closed i \<in> set (upload_trace fs up b ps n) \<or> Opened p i \<in> set (upload_trace fs up b ps n)
   \<Longrightarrow> n \<le> i"
  by (induction ps arbitrary: n) (force split: option.splits)+

lemma upload_trace_triple:
  "Opened p i \<in> set (upload_trace fs up b ps n) \<Longrightarrow>
   \<exists>pre post ok.
     upload_trace fs up b ps n = pre @ [Opened p i, UploadAttempt b p (Some i) ok, Closed i] @ post
     \<and> Closed i \<notin> set pre \<and> Closed i \<notin> set post"
proof (induction ps arbitrary: n)
  case Nil
  then show ?case by simp
next
  case (Cons q ps)
  from Cons.prems have None: "fs q = None"
    by (cases "fs q") auto
  let ?ok = "up \<lparr>Bucket = b, Key = q, Body = Some \<lparr>fd = n, fname = q\<rparr>\<rparr> = None"
  let ?head = "[Opened q n, UploadAttempt b q (Some n) ?ok, Closed n]"
  have eq: "upload_trace fs up b (q # ps) n = ?head @ upload_trace fs up b ps (Suc n)"
    using None by simp
  from Cons.prems eq
  consider (here) "p = q" "i = n" | (later) "Opened p i \<in> set (upload_trace fs up b ps (Suc n))"
    by auto
  then show ?case
  proof cases
    case here
    have "Closed n \<notin> set (upload_trace fs up b ps (Suc n))"
      using upload_trace_fd_ge [of n fs up b ps "Suc n"] by auto
    with here eq show ?thesis
      by (intro exI [of _ "[]"] exI [of _ "upload_trace fs up b ps (Suc n)"] exI [of _ ?ok]) simp
  next
    case later
    from Cons.IH [OF later] obtain pre post ok where
      t: "upload_trace fs up b ps (Suc n) = pre @ [Opened p i, UploadAttempt b p (Some i) ok, Closed i] @ post"
      and n: "Closed i \<notin> set pre" "Closed i \<notin> set post"
      by blast
    have "Suc n \<le> i"
      using upload_trace_fd_ge [of i fs up b ps "Suc n" p] later by blast
    then have "Closed i \<notin> set (?head @ pre)" using n by auto
    moreover have "upload_trace fs up b (q # ps) n
        = (?head @ pre) @ [Opened p i, UploadAttempt b p (Some i) ok, Closed i] @ post"
      using eq t by simp
    ultimately show ?thesis using n by blast
  qed
qed

lemma Next_consumes_head:
  "filePaths (fst (snd (Next fs d s))) = tl (filePaths d)
   \<and> open_attempts (trace (snd (snd (Next fs d s))))
       = open_attempts (trace s) @ take 1 (filePaths d)"
  by (cases "filePaths d"; cases "fs (hd (filePaths d))")
     (simp_all add: Next_Nil Next_Cons_opens Next_Cons_fails open_attempts_append)

lemma Next_returns:
  "fst (Next fs d s) = (filePaths d \<noteq> [] \<and> fs (hd (filePaths d)) = None)"
  by (cases "filePaths d"; cases "fs (hd (filePaths d))")
     (simp_all add: Next_Nil Next_Cons_opens Next_Cons_fails)

lemma Next_times_paths:
  "filePaths (fst (snd (Next_times k fs d s))) = drop k (filePaths d)
   \<and> open_attempts (trace (snd (snd (Next_times k fs d s))))
       = open_attempts (trace s) @ take k (filePaths d)
   \<and> length (filter id (fst (Next_times k fs d s))) \<le> length (filePaths d)"
proof (induction k arbitrary: d s)
  case 0
  then show ?case by simp
next
  case (Suc k)
  obtain b d' s' where n: "Next fs d s = (b, d', s')" by (cases "Next fs d s") auto
  have h: "filePaths d' = tl (filePaths d)"
    "open_attempts (trace s') = open_attempts (trace s) @ take 1 (filePaths d)"
    using Next_consumes_head [of fs d s] n by simp_all
  have b: "b \<longrightarrow> filePaths d \<noteq> []"
    using Next_returns [of fs d s] n by simp
  show ?case
    using Suc.IH [of d' s'] n h b
    by (cases "filePaths d") (auto simp: drop_Suc split: prod.splits)
qed

lemma Next_exhausted:
  "filePaths d = [] \<Longrightarrow> fst (Next fs d s) = False \<and> snd (snd (Next fs d s)) = s"
  by (simp add: Next_Nil)


lemma prefix_to_first_failure_length:
  "length (takeWhile P ps @ take 1 (dropWhile P ps)) \<le> length ps"
proof -
  have "length (take 1 (dropWhile P ps)) \<le> length (dropWhile P ps)" by simp
  moreover have "length (takeWhile P ps) + length (dropWhile P ps) = length ps"
    by (metis length_append takeWhile_dropWhile_id)
  ultimately show ?thesis by simp
qed

text \<open>
  C3, as the claim states it, fails: \<^verbatim>\<open>Next\<close> does not look at a recorded error. Of the
  two files a and b, a cannot be opened. The first call of \<^verbatim>\<open>Next\<close> returns false and
  records the error; a second call opens b all the same, returns true, and replaces the
  recorded error by nil. So after an open error is recorded \<^verbatim>\<open>Next\<close> can return true
  and a further file can be opened; only a caller that stops at the first false call
  prevents it.
\<close>

theorem Next_after_open_error_counterexample:
  "(case Next (\<lambda>p. if p = ''/tmp/kit/a'' then Some (ErrorString ''permission denied'') else None)
           (NewDirectoryIterator ''kit''
              [WalkEntry ''/tmp/kit'' True None, WalkEntry ''/tmp/kit/a'' False None,
               WalkEntry ''/tmp/kit/b'' False None])
           \<lparr>next_fd = 3, open_files = [], trace = []\<rparr> of
      (b1, d1, s1) \<Rightarrow>
        (case Next (\<lambda>p. if p = ''/tmp/kit/a'' then Some (ErrorString ''permission denied'') else None)
                d1 s1 of
           (b2, d2, s2) \<Rightarrow>
             \<not> b1 \<and> err d1 = Some (ErrorString ''permission denied'')
             \<and> b2 \<and> err d2 = None
             \<and> trace s2 = [OpenFailed ''/tmp/kit/a'', Opened ''/tmp/kit/b'' 3]
             \<and> open_files s2 = [3]))"
  by (simp add: Next_def os_Open_def NewDirectoryIterator_def walkFn_def)

text \<open>
  C3, amended: \<^verbatim>\<open>Next\<close> returns false exactly when the remaining sequence is empty or
  the open it performs in this call fails (it does not consult an error recorded by an
  earlier call). Under the batch uploader, which stops at the first false \<^verbatim>\<open>Next\<close>: if
  the file at index \<open>k\<close> is the first that cannot be opened, the opens attempted are
  those of the files at indices \<open>0..k\<close> and no more, the iterator's \<^verbatim>\<open>Err\<close> is that open
  error, and the files after it are left in the remaining sequence, never attempted; if
  every file opens, every file is attempted once, in order.
\<close>

theorem Next_false_stops_upload_at_first_open_error:
  "fst (Next fs d s) = (filePaths d \<noteq> [] \<and> fs (hd (filePaths d)) = None)
   \<and> (k < length (filePaths d) \<and> fs (filePaths d ! k) \<noteq> None \<and>
      (\<forall>j<k. fs (filePaths d ! j) = None) \<longrightarrow>
        open_attempts (trace (snd (snd (UploadWithIterator_loop fs up d s errs))))
          = open_attempts (trace s) @ take (Suc k) (filePaths d)
        \<and> err (fst (snd (UploadWithIterator_loop fs up d s errs))) = fs (filePaths d ! k)
        \<and> filePaths (fst (snd (UploadWithIterator_loop fs up d s errs)))
            = drop (Suc k) (filePaths d))
   \<and> ((\<forall>p \<in> set (filePaths d). fs p = None) \<longrightarrow>
        open_attempts (trace (snd (snd (UploadWithIterator_loop fs up d s errs))))
          = open_attempts (trace s) @ filePaths d)"
proof (intro conjI impI)
  show "fst (Next fs d s) = (filePaths d \<noteq> [] \<and> fs (hd (filePaths d)) = None)"
    by (rule Next_returns)
next
  assume h: "k < length (filePaths d) \<and> fs (filePaths d ! k) \<noteq> None \<and>
      (\<forall>j<k. fs (filePaths d ! j) = None)"
  then show "open_attempts (trace (snd (snd (UploadWithIterator_loop fs up d s errs))))
          = open_attempts (trace s) @ take (Suc k) (filePaths d)"
    using loop_open_attempts [OF refl, of fs up d s errs]
      first_failure_prefix [of k "filePaths d" fs] by simp
  from h show "err (fst (snd (UploadWithIterator_loop fs up d s errs))) = fs (filePaths d ! k)"
    using loop_err [OF refl, of k d fs up s errs] by simp
  from h show "filePaths (fst (snd (UploadWithIterator_loop fs up d s errs)))
            = drop (Suc k) (filePaths d)"
    using loop_err [OF refl, of k d fs up s errs] by simp
next
  assume "\<forall>p \<in> set (filePaths d). fs p = None"
  then show "open_attempts (trace (snd (snd (UploadWithIterator_loop fs up d s errs))))
          = open_attempts (trace s) @ filePaths d"
    using loop_open_attempts [OF refl, of fs up d s errs] no_failure_all [of "filePaths d" fs]
    by simp
qed

theorem Next_false_stops_upload_at_first_open_error_witness:
  "filePaths (NewDirectoryIterator ''kit''
       [WalkEntry ''/tmp/kit'' True None, WalkEntry ''/tmp/kit/f1'' False None,
        WalkEntry ''/tmp/kit/f2'' False None, WalkEntry ''/tmp/kit/f3'' False None,
        WalkEntry ''/tmp/kit/f4'' False None, WalkEntry ''/tmp/kit/f5'' False None])
     = [''/tmp/kit/f1'', ''/tmp/kit/f2'', ''/tmp/kit/f3'', ''/tmp/kit/f4'', ''/tmp/kit/f5'']
   \<and> open_attempts (trace (snd (snd (UploadWithIterator_loop
        (\<lambda>p. if p = ''/tmp/kit/f3'' then Some (ErrorString ''permission denied'') else None)
        (\<lambda>i. None)
        (NewDirectoryIterator ''kit''
           [WalkEntry ''/tmp/kit'' True None, WalkEntry ''/tmp/kit/f1'' False None,
            WalkEntry ''/tmp/kit/f2'' False None, WalkEntry ''/tmp/kit/f3'' False None,
            WalkEntry ''/tmp/kit/f4'' False None, WalkEntry ''/tmp/kit/f5'' False None])
        \<lparr>next_fd = 3, open_files = [], trace = []\<rparr> []))))
     = [''/tmp/kit/f1'', ''/tmp/kit/f2'', ''/tmp/kit/f3'']"
proof -
  let ?fs = "\<lambda>p. if p = ''/tmp/kit/f3'' then Some (ErrorString ''permission denied'') else None"
  let ?d = "NewDirectoryIterator ''kit''
       [WalkEntry ''/tmp/kit'' True None, WalkEntry ''/tmp/kit/f1'' False None,
        WalkEntry ''/tmp/kit/f2'' False None, WalkEntry ''/tmp/kit/f3'' False None,
        WalkEntry ''/tmp/kit/f4'' False None, WalkEntry ''/tmp/kit/f5'' False None]"
  have ps: "filePaths ?d
     = [''/tmp/kit/f1'', ''/tmp/kit/f2'', ''/tmp/kit/f3'', ''/tmp/kit/f4'', ''/tmp/kit/f5'']"
    by (simp add: NewDirectoryIterator_def walkFn_def)
  have h: "2 < length (filePaths ?d) \<and> ?fs (filePaths ?d ! 2) \<noteq> None \<and>
      (\<forall>j<2. ?fs (filePaths ?d ! j) = None)"
    unfolding ps by (simp add: less_Suc_eq numeral_2_eq_2)
  have "open_attempts (trace (snd (snd (UploadWithIterator_loop ?fs (\<lambda>i. None) ?d
          \<lparr>next_fd = 3, open_files = [], trace = []\<rparr> []))))
      = open_attempts (trace \<lparr>next_fd = 3, open_files = [], trace = []\<rparr>)
          @ take (Suc 2) (filePaths ?d)"
    using Next_false_stops_upload_at_first_open_error
      [where fs = ?fs and d = ?d and k = 2, THEN conjunct2, THEN conjunct1, rule_format, OF h]
    by (rule conjunct1)
  then show ?thesis
    unfolding ps by (simp add: numeral_3_eq_3)
qed


text \<open>
  C4: the upload unit that \<^verbatim>\<open>UploadObject\<close> returns has the current file as its body
  and that file's \<^verbatim>\<open>Close\<close> as its \<^verbatim>\<open>After\<close>. Hence, for every set of files that cannot be
  opened and every outcome of every upload, a batch upload started with fresh descriptors
  leaves exactly the trace \<open>upload_trace\<close>: each file that opened is uploaded and then
  closed, a failed open ends it; the descriptors open afterwards are those open before,
  so no handle is leaked; and every handle the trace opens is followed at once by its
  upload attempt and its close, and is closed nowhere else in the trace: exactly once.
\<close>

theorem UploadObject_After_closes_open_handle:
  "After (UploadObject d) = Some (File_Close (next_f d))
   \<and> Body (Object (UploadObject d)) = next_f d
   \<and> Key (Object (UploadObject d)) = next_path d
   \<and> Bucket (Object (UploadObject d)) = bucket d
   \<and> (fds_fresh s \<longrightarrow>
        trace (snd (snd (UploadWithIterator_loop fs up d s errs)))
          = trace s @ upload_trace fs up (bucket d) (filePaths d) (next_fd s)
        \<and> open_files (snd (snd (UploadWithIterator_loop fs up d s errs))) = open_files s)
   \<and> (Opened p i \<in> set (upload_trace fs up b ps n) \<longrightarrow>
        (\<exists>pre post ok.
           upload_trace fs up b ps n
             = pre @ [Opened p i, UploadAttempt b p (Some i) ok, Closed i] @ post
           \<and> Closed i \<notin> set pre \<and> Closed i \<notin> set post))"
proof (intro conjI impI)
  assume "fds_fresh s"
  from loop_trace [OF this refl, of fs up d errs]
  show "trace (snd (snd (UploadWithIterator_loop fs up d s errs)))
          = trace s @ upload_trace fs up (bucket d) (filePaths d) (next_fd s)"
    and "open_files (snd (snd (UploadWithIterator_loop fs up d s errs))) = open_files s"
    by simp_all
next
  assume "Opened p i \<in> set (upload_trace fs up b ps n)"
  then show "\<exists>pre post ok.
           upload_trace fs up b ps n
             = pre @ [Opened p i, UploadAttempt b p (Some i) ok, Closed i] @ post
           \<and> Closed i \<notin> set pre \<and> Closed i \<notin> set post"
    by (rule upload_trace_triple)
qed (simp_all add: UploadObject_def)

theorem UploadObject_After_closes_open_handle_witness:
  "fds_fresh \<lparr>next_fd = 3, open_files = [], trace = []\<rparr>
   \<and> trace (snd (snd (UploadWithIterator_loop
        (\<lambda>p. if p = ''/tmp/kit/f3'' then Some (ErrorString ''permission denied'') else None)
        (\<lambda>i. if Key i = ''/tmp/kit/f2'' then Some (ErrorString ''upload failed'') else None)
        (NewDirectoryIterator ''kit''
           [WalkEntry ''/tmp/kit'' True None, WalkEntry ''/tmp/kit/f1'' False None,
            WalkEntry ''/tmp/kit/f2'' False None, WalkEntry ''/tmp/kit/f3'' False None,
            WalkEntry ''/tmp/kit/f4'' False None, WalkEntry ''/tmp/kit/f5'' False None])
        \<lparr>next_fd = 3, open_files = [], trace = []\<rparr> [])))
     = [Opened ''/tmp/kit/f1'' 3, UploadAttempt ''kit'' ''/tmp/kit/f1'' (Some 3) True, Closed 3,
        Opened ''/tmp/kit/f2'' 4, UploadAttempt ''kit'' ''/tmp/kit/f2'' (Some 4) False, Closed 4,
        OpenFailed ''/tmp/kit/f3'']
   \<and> open_files (snd (snd (UploadWithIterator_loop
        (\<lambda>p. if p = ''/tmp/kit/f3'' then Some (ErrorString ''permission denied'') else None)
        (\<lambda>i. if Key i = ''/tmp/kit/f2'' then Some (ErrorString ''upload failed'') else None)
        (NewDirectoryIterator ''kit''
           [WalkEntry ''/tmp/kit'' True None, WalkEntry ''/tmp/kit/f1'' False None,
            WalkEntry ''/tmp/kit/f2'' False None, WalkEntry ''/tmp/kit/f3'' False None,
            WalkEntry ''/tmp/kit/f4'' False None, WalkEntry ''/tmp/kit/f5'' False None])
        \<lparr>next_fd = 3, open_files = [], trace = []\<rparr> []))) = []"
proof -
  let ?fs = "\<lambda>p. if p = ''/tmp/kit/f3'' then Some (ErrorString ''permission denied'') else None"
  let ?up = "\<lambda>i. if Key i = ''/tmp/kit/f2'' then Some (ErrorString ''upload failed'') else None"
  let ?d = "NewDirectoryIterator ''kit''
       [WalkEntry ''/tmp/kit'' True None, WalkEntry ''/tmp/kit/f1'' False None,
        WalkEntry ''/tmp/kit/f2'' False None, WalkEntry ''/tmp/kit/f3'' False None,
        WalkEntry ''/tmp/kit/f4'' False None, WalkEntry ''/tmp/kit/f5'' False None]"
  let ?s = "\<lparr>next_fd = 3, open_files = [], trace = []\<rparr>"
  have ps: "filePaths ?d
     = [''/tmp/kit/f1'', ''/tmp/kit/f2'', ''/tmp/kit/f3'', ''/tmp/kit/f4'', ''/tmp/kit/f5'']"
    "bucket ?d = ''kit''"
    by (simp_all add: NewDirectoryIterator_def walkFn_def)
  have h: "fds_fresh ?s" by (simp add: fds_fresh_def)
  have "trace (snd (snd (UploadWithIterator_loop ?fs ?up ?d ?s [])))
          = trace ?s @ upload_trace ?fs ?up (bucket ?d) (filePaths ?d) (next_fd ?s)
        \<and> open_files (snd (snd (UploadWithIterator_loop ?fs ?up ?d ?s []))) = open_files ?s"
    using UploadObject_After_closes_open_handle
      [where fs = ?fs and up = ?up and d = ?d and s = ?s and errs = "[]",
        THEN conjunct2, THEN conjunct2, THEN conjunct2, THEN conjunct2,
        THEN conjunct1, rule_format, OF h] .
  with h show ?thesis
    unfolding ps by simp
qed

text \<open>
  C10: a call of \<^verbatim>\<open>Next\<close> removes the head of the remaining paths and nothing else,
  whether the open succeeds or fails (on an empty sequence it removes nothing), and
  attempts to open that head and no other path. Hence \<open>k\<close> calls in a row, whatever they
  return, leave the paths after the first \<open>k\<close> and have attempted the first \<open>k\<close> paths,
  each position once and in order, so that a path whose open failed is never tried
  again; at most as many calls return true as there were paths; once as many calls have
  been made as there were paths, the iteration is over: \<^verbatim>\<open>Next\<close> returns false and opens
  nothing. The batch uploader's loop, which ends at the first false call, therefore ends,
  after at most that many open attempts.
\<close>

theorem Next_removes_exactly_the_head:
  "filePaths (fst (snd (Next fs d s))) = tl (filePaths d)
   \<and> open_attempts (trace (snd (snd (Next fs d s))))
       = open_attempts (trace s) @ take 1 (filePaths d)
   \<and> filePaths (fst (snd (Next_times k fs d s))) = drop k (filePaths d)
   \<and> open_attempts (trace (snd (snd (Next_times k fs d s))))
       = open_attempts (trace s) @ take k (filePaths d)
   \<and> length (filter id (fst (Next_times k fs d s))) \<le> length (filePaths d)
   \<and> fst (Next fs (fst (snd (Next_times (length (filePaths d)) fs d s)))
               (snd (snd (Next_times (length (filePaths d)) fs d s)))) = False
   \<and> snd (snd (Next fs (fst (snd (Next_times (length (filePaths d)) fs d s)))
               (snd (snd (Next_times (length (filePaths d)) fs d s)))))
       = snd (snd (Next_times (length (filePaths d)) fs d s))
   \<and> length (open_attempts (trace (snd (snd (UploadWithIterator_loop fs up d s errs)))))
       \<le> length (open_attempts (trace s)) + length (filePaths d)"
proof -
  have e: "filePaths (fst (snd (Next_times (length (filePaths d)) fs d s))) = []"
    using Next_times_paths [of "length (filePaths d)" fs d s] by simp
  have u: "length (open_attempts (trace (snd (snd (UploadWithIterator_loop fs up d s errs)))))
       \<le> length (open_attempts (trace s)) + length (filePaths d)"
    using loop_open_attempts [OF refl, of fs up d s errs]
      prefix_to_first_failure_length [of "\<lambda>p. fs p = None" "filePaths d"]
    by simp
  show ?thesis
    using Next_consumes_head [of fs d s] Next_times_paths [of k fs d s] Next_exhausted [OF e] u
    by simp
qed


section \<open>Properties of the cluster endpoint\<close>

text \<open>
  C8: when the endpoint service exists (the Get returns it) and its ingress list is not
  empty, \<^verbatim>\<open>GetClusterEndpoint\<close> returns the hostname of the first ingress entry and no
  error. When the Get reports that the service is not found, or the service's ingress
  list is empty, it returns the empty string and an error that wraps the sentinel
  \<^verbatim>\<open>WaitingForSubResources\<close>. Any other error of the Get is returned wrapped as it is.
\<close>

theorem GetClusterEndpoint_hostname_or_waiting:
  "(client_Get \<lparr>nn_Namespace = nn_Namespace nn, nn_Name = ServiceNameFor (nn_Name nn)\<rparr> = Inr svc
      \<and> Ingress svc \<noteq> [] \<longrightarrow>
      GetClusterEndpoint client_Get nn = (Hostname (hd (Ingress svc)), None))
   \<and> (client_Get \<lparr>nn_Namespace = nn_Namespace nn, nn_Name = ServiceNameFor (nn_Name nn)\<rparr> = Inl e
      \<and> IsNotFound e \<longrightarrow>
      fst (GetClusterEndpoint client_Get nn) = []
      \<and> (\<exists>x. snd (GetClusterEndpoint client_Get nn) = Some x
              \<and> errors_Is x WaitingForSubResources))
   \<and> (client_Get \<lparr>nn_Namespace = nn_Namespace nn, nn_Name = ServiceNameFor (nn_Name nn)\<rparr> = Inr svc
      \<and> Ingress svc = [] \<longrightarrow>
      fst (GetClusterEndpoint client_Get nn) = []
      \<and> (\<exists>x. snd (GetClusterEndpoint client_Get nn) = Some x
              \<and> errors_Is x WaitingForSubResources))
   \<and> (client_Get \<lparr>nn_Namespace = nn_Namespace nn, nn_Name = ServiceNameFor (nn_Name nn)\<rparr> = Inl e
      \<and> \<not> IsNotFound e \<longrightarrow>
      GetClusterEndpoint client_Get nn = ([], Some (Wrapf ''getting cluster endpoint, '' e)))"
  by (simp add: GetClusterEndpoint_def hd_conv_nth)

theorem GetClusterEndpoint_hostname_or_waiting_witness:
  "GetClusterEndpoint
     (\<lambda>k. if nn_Name k = ''guest-cp''
          then Inr \<lparr>Ingress = [\<lparr>IP = [], Hostname = ''nlb.example.com''\<rparr>,
                               \<lparr>IP = [], Hostname = ''other.example.com''\<rparr>]\<rparr>
          else Inl (StatusError NotFound ''not found''))
     \<lparr>nn_Namespace = ''default'', nn_Name = ''guest''\<rparr>
     = (''nlb.example.com'', None)
   \<and> snd (GetClusterEndpoint
     (\<lambda>k. if nn_Name k = ''guest-cp''
          then Inr \<lparr>Ingress = [\<lparr>IP = [], Hostname = ''nlb.example.com''\<rparr>,
                               \<lparr>IP = [], Hostname = ''other.example.com''\<rparr>]\<rparr>
          else Inl (StatusError NotFound ''not found''))
     \<lparr>nn_Namespace = ''default'', nn_Name = ''absent''\<rparr>) \<noteq> None"
proof -
  let ?get = "\<lambda>k. if nn_Name k = ''guest-cp''
          then Inr \<lparr>Ingress = [\<lparr>IP = [], Hostname = ''nlb.example.com''\<rparr>,
                               \<lparr>IP = [], Hostname = ''other.example.com''\<rparr>]\<rparr>
          else Inl (StatusError NotFound ''not found'')"
  let ?svc = "\<lparr>Ingress = [\<lparr>IP = [], Hostname = ''nlb.example.com''\<rparr>,
                               \<lparr>IP = [], Hostname = ''other.example.com''\<rparr>]\<rparr>"
  let ?nn = "\<lparr>nn_Namespace = ''default'', nn_Name = ''guest''\<rparr>"
  let ?na = "\<lparr>nn_Namespace = ''default'', nn_Name = ''absent''\<rparr>"
  have h1: "?get \<lparr>nn_Namespace = nn_Namespace ?nn, nn_Name = ServiceNameFor (nn_Name ?nn)\<rparr> = Inr ?svc
      \<and> Ingress ?svc \<noteq> []"
    by (simp add: ServiceNameFor_def)
  have h2: "?get \<lparr>nn_Namespace = nn_Namespace ?na, nn_Name = ServiceNameFor (nn_Name ?na)\<rparr>
      = Inl (StatusError NotFound ''not found'') \<and> IsNotFound (StatusError NotFound ''not found'')"
    by (simp add: ServiceNameFor_def)
  have a: "GetClusterEndpoint ?get ?nn = (Hostname (hd (Ingress ?svc)), None)"
    using GetClusterEndpoint_hostname_or_waiting
      [where client_Get = ?get and nn = ?nn and svc = ?svc, THEN conjunct1, rule_format, OF h1] .
  have b: "fst (GetClusterEndpoint ?get ?na) = []
      \<and> (\<exists>x. snd (GetClusterEndpoint ?get ?na) = Some x \<and> errors_Is x WaitingForSubResources)"
    using GetClusterEndpoint_hostname_or_waiting
      [where client_Get = ?get and nn = ?na and e = "StatusError NotFound ''not found''",
        THEN conjunct2, THEN conjunct1, rule_format, OF h2] .
  from b have "snd (GetClusterEndpoint ?get ?na) \<noteq> None" by auto
  with a show ?thesis by simp
qed

end
